theory Spec2Isabelle
  imports Complex_Main "HOL-Library.Word" "HOL-Library.Sublist"
begin

section \<open>The ledger contract (BuildExpenseLedger)\<close>

subsection \<open>Values\<close>

text \<open>
  An \<open>address\<close> is 160 bits. \<open>euint32\<close> and \<open>externalEuint32\<close> are user-defined value
  types over \<open>bytes32\<close>: handles of 256 bits. The value behind a handle is a 32-bit
  unsigned integer. \<open>uint256\<close> values (timestamps, indices, lengths) are naturals: the
  contract does no arithmetic on them, and a storage array is an unbounded list (the
  compiler's bound on the length of a storage array is out of reach of any sequence of
  transactions).
\<close>

type_synonym address = "160 word"
type_synonym bytes32 = "256 word"
type_synonym euint32 = bytes32
type_synonym externalEuint32 = bytes32
type_synonym bytes = "8 word list"
type_synonym uint256 = nat

record ExpenseRecord =
  timestamp :: uint256
  category :: string
  exists :: bool

datatype event =
  ExpenseAdded address uint256 string
| MonthlyTotalUpdated address uint256

subsection \<open>The encryption runtime\<close>

text \<open>
  Modelled from the spec: the library \<open>@fhevm/solidity\<close> (\<open>FHE.fromExternal\<close>,
  \<open>FHE.add\<close>, \<open>FHE.allowThis\<close>, \<open>FHE.allow\<close>) and the decryption service are
  imported by the contract and are not part of the repository. They are a parameter of the
  model:
  \<^item> \<open>fhe_fromExternal h p caller contract\<close> is \<open>Some a\<close>, the internal handle, when
    the proof \<open>p\<close> verifies the ciphertext \<open>h\<close> against the caller and the contract, and
    \<open>None\<close> when it does not (the call reverts);
  \<^item> \<open>fhe_add a b\<close> is the handle of the homomorphic sum;
  \<^item> \<open>fhe_decrypt a\<close> is the 32-bit plaintext the decryption service returns for a
    handle. The contract never calls it.
\<close>

record fhe_runtime =
  fhe_fromExternal :: "externalEuint32 \<Rightarrow> bytes \<Rightarrow> address \<Rightarrow> address \<Rightarrow> euint32 option"
  fhe_add :: "euint32 \<Rightarrow> euint32 \<Rightarrow> euint32"
  fhe_decrypt :: "euint32 \<Rightarrow> 32 word"

text \<open>
  Homomorphic addition of encrypted 32-bit unsigned integers: the sum handle decrypts to
  the sum of the operands in 32 bits, which wraps around at \<open>2 ^ 32\<close>.
\<close>

definition homomorphic :: "fhe_runtime \<Rightarrow> bool" where
  "homomorphic rt = (\<forall>a b. fhe_decrypt rt (fhe_add rt a b) = fhe_decrypt rt a + fhe_decrypt rt b)"

subsection \<open>Storage\<close>

text \<open>
  The three private mappings of the contract (\<open>_encryptedMonthlyTotals\<close>,
  \<open>_expenseRecords\<close>, \<open>_hasInitialized\<close>), the access-control list that
  \<open>FHE.allowThis\<close> and \<open>FHE.allow\<close> write, and the log of emitted events. A mapping
  returns the zero value of its value type at a key never written.
\<close>

record ledger =
  st_encryptedMonthlyTotals :: "address \<Rightarrow> euint32"
  st_expenseRecords :: "address \<Rightarrow> ExpenseRecord list"
  st_hasInitialized :: "address \<Rightarrow> bool"
  st_acl :: "(euint32 \<times> address) set"
  st_events :: "event list"

definition deployed :: ledger where
  "deployed =
     \<lparr>st_encryptedMonthlyTotals = (\<lambda>_. 0),
      st_expenseRecords = (\<lambda>_. []),
      st_hasInitialized = (\<lambda>_. False),
      st_acl = {},
      st_events = []\<rparr>"

datatype revert = InvalidInputProof | RecordIndexOutOfBounds

subsection \<open>addExpense\<close>

definition FHE_fromExternal ::
  "fhe_runtime \<Rightarrow> address \<Rightarrow> address \<Rightarrow> externalEuint32 \<Rightarrow> bytes \<Rightarrow> revert + euint32" where
  "FHE_fromExternal rt this sender encryptedAmount inputProof =
     (case fhe_fromExternal rt encryptedAmount inputProof sender this of
        None \<Rightarrow> Inl InvalidInputProof
      | Some amount \<Rightarrow> Inr amount)"

definition FHE_allow :: "euint32 \<Rightarrow> address \<Rightarrow> ledger \<Rightarrow> ledger" where
  "FHE_allow h a s = s\<lparr>st_acl := insert (h, a) (st_acl s)\<rparr>"

definition update_total :: "fhe_runtime \<Rightarrow> address \<Rightarrow> euint32 \<Rightarrow> ledger \<Rightarrow> ledger" where
  "update_total rt sender amount s =
     (if \<not> st_hasInitialized s sender
      then s\<lparr>st_encryptedMonthlyTotals := (st_encryptedMonthlyTotals s)(sender := amount),
              st_hasInitialized := (st_hasInitialized s)(sender := True)\<rparr>
      else s\<lparr>st_encryptedMonthlyTotals := (st_encryptedMonthlyTotals s)
                (sender := fhe_add rt (st_encryptedMonthlyTotals s sender) amount)\<rparr>)"

definition push_record :: "address \<Rightarrow> uint256 \<Rightarrow> string \<Rightarrow> ledger \<Rightarrow> ledger" where
  "push_record sender now cat s =
     s\<lparr>st_expenseRecords := (st_expenseRecords s)
          (sender := st_expenseRecords s sender @
             [\<lparr>timestamp = now, category = cat, exists = True\<rparr>])\<rparr>"

definition emit :: "event \<Rightarrow> ledger \<Rightarrow> ledger" where
  "emit e s = s\<lparr>st_events := st_events s @ [e]\<rparr>"

text \<open>
  \<open>addExpense rt this sender now encryptedAmount inputProof cat s\<close>: the call by
  \<open>msg.sender = sender\<close> at \<open>block.timestamp = now\<close> to the contract deployed at
  \<open>this\<close>. \<open>Inl\<close> is a revert.
\<close>

definition addExpense ::
  "fhe_runtime \<Rightarrow> address \<Rightarrow> address \<Rightarrow> uint256 \<Rightarrow> externalEuint32 \<Rightarrow> bytes \<Rightarrow> string
     \<Rightarrow> ledger \<Rightarrow> revert + ledger" where
  "addExpense rt this sender now encryptedAmount inputProof cat s =
     (case FHE_fromExternal rt this sender encryptedAmount inputProof of
        Inl e \<Rightarrow> Inl e
      | Inr amount \<Rightarrow>
          (let s1 = update_total rt sender amount s;
               s2 = push_record sender now cat s1;
               s3 = FHE_allow (st_encryptedMonthlyTotals s2 sender) this s2;
               s4 = FHE_allow (st_encryptedMonthlyTotals s3 sender) sender s3;
               s5 = emit (ExpenseAdded sender now cat) s4;
               s6 = emit (MonthlyTotalUpdated sender now) s5
           in Inr s6))"

subsection \<open>The view functions\<close>

definition getEncryptedMonthlyTotal :: "ledger \<Rightarrow> address \<Rightarrow> euint32" where
  "getEncryptedMonthlyTotal s user = st_encryptedMonthlyTotals s user"

definition getExpenseRecordCount :: "ledger \<Rightarrow> address \<Rightarrow> uint256" where
  "getExpenseRecordCount s user = length (st_expenseRecords s user)"

definition getExpenseRecord :: "ledger \<Rightarrow> address \<Rightarrow> uint256 \<Rightarrow> revert + (uint256 \<times> string)" where
  "getExpenseRecord s user index =
     (if index < length (st_expenseRecords s user)
      then (let record = st_expenseRecords s user ! index
            in Inr (timestamp record, category record))
      else Inl RecordIndexOutOfBounds)"

definition hasInitialized :: "ledger \<Rightarrow> address \<Rightarrow> bool" where
  "hasInitialized s user = st_hasInitialized s user"

subsection \<open>Transactions\<close>

text \<open>
  A transaction is a call of \<open>addExpense\<close>, the only function of the contract that
  writes. A transaction that reverts leaves the storage as it was. The reachable states
  are those that a list of transactions produces from the deployed contract.
\<close>

record tx_call =
  msg_sender :: address
  block_timestamp :: uint256
  arg_encryptedAmount :: externalEuint32
  arg_inputProof :: bytes
  arg_category :: string

definition call_addExpense :: "fhe_runtime \<Rightarrow> address \<Rightarrow> tx_call \<Rightarrow> ledger \<Rightarrow> revert + ledger" where
  "call_addExpense rt this c s =
     addExpense rt this (msg_sender c) (block_timestamp c) (arg_encryptedAmount c)
       (arg_inputProof c) (arg_category c) s"

definition transact :: "fhe_runtime \<Rightarrow> address \<Rightarrow> ledger \<Rightarrow> tx_call \<Rightarrow> ledger" where
  "transact rt this s c = (case call_addExpense rt this c s of Inl e \<Rightarrow> s | Inr s' \<Rightarrow> s')"

definition execute :: "fhe_runtime \<Rightarrow> address \<Rightarrow> ledger \<Rightarrow> tx_call list \<Rightarrow> ledger" where
  "execute rt this s cs = foldl (transact rt this) s cs"

text \<open>
  The decoded amount of a transaction, when its proof verifies; the successful adds of a
  user in a list of transactions, in submission order, and their decoded amounts.
\<close>

definition decoded :: "fhe_runtime \<Rightarrow> address \<Rightarrow> tx_call \<Rightarrow> euint32 option" where
  "decoded rt this c =
     fhe_fromExternal rt (arg_encryptedAmount c) (arg_inputProof c) (msg_sender c) this"

definition addsOf :: "fhe_runtime \<Rightarrow> address \<Rightarrow> address \<Rightarrow> tx_call list \<Rightarrow> tx_call list" where
  "addsOf rt this user cs =
     filter (\<lambda>c. msg_sender c = user \<and> decoded rt this c \<noteq> None) cs"

definition amountsOf :: "fhe_runtime \<Rightarrow> address \<Rightarrow> address \<Rightarrow> tx_call list \<Rightarrow> euint32 list" where
  "amountsOf rt this user cs =
     List.map_filter (\<lambda>c. if msg_sender c = user then decoded rt this c else None) cs"

definition plain :: "fhe_runtime \<Rightarrow> euint32 \<Rightarrow> nat" where
  "plain rt h = unat (fhe_decrypt rt h)"

subsection \<open>A runtime to run the model on\<close>

text \<open>
  A small instance of the runtime, for evaluating the contract on concrete transactions:
  a handle carries its plaintext in its low 32 bits, a proof verifies when it is the two
  bytes made of the low bytes of the caller and of the contract, and the sum handle is
  the sum of the handles. \<open>sample_call\<close> is a call with a proof that verifies for the
  contract at address 7.
\<close>

definition sample_runtime :: fhe_runtime where
  "sample_runtime =
     \<lparr>fhe_fromExternal = (\<lambda>h p caller contract.
          if p = [ucast caller, ucast contract] then Some h else None),
      fhe_add = (\<lambda>a b. a + b),
      fhe_decrypt = (\<lambda>h. ucast h)\<rparr>"

definition sample_call :: "address \<Rightarrow> uint256 \<Rightarrow> externalEuint32 \<Rightarrow> string \<Rightarrow> tx_call" where
  "sample_call sender now h cat =
     \<lparr>msg_sender = sender, block_timestamp = now, arg_encryptedAmount = h,
      arg_inputProof = [ucast sender, 7], arg_category = cat\<rparr>"

text \<open>The record that a transaction pushes.\<close>

definition recorded :: "tx_call \<Rightarrow> ExpenseRecord" where
  "recorded c = \<lparr>timestamp = block_timestamp c, category = arg_category c, exists = True\<rparr>"

text \<open>
  Four transactions to the contract at address 7: user 1 adds 1000, user 2 adds 2000,
  user 1 sends a ciphertext with an empty proof (which reverts), user 1 adds 500.
\<close>

definition sample_trace :: "tx_call list" where
  "sample_trace =
     [sample_call 1 100 1000 ''materials'',
      sample_call 2 150 2000 ''materials'',
      \<lparr>msg_sender = 1, block_timestamp = 170, arg_encryptedAmount = 9, arg_inputProof = [],
        arg_category = ''other''\<rparr>,
      sample_call 1 200 500 ''labor'']"

section \<open>The client orchestrator (useExpenseLedger)\<close>

subsection \<open>JavaScript values\<close>

text \<open>
  A \<open>number\<close> is a double. The hook compares it with zero and hands it on, so the
  finite doubles are taken as reals. \<open>NaN <= 0\<close> is false.
\<close>

datatype number = NaN | NegInfinity | Num real | PosInfinity

fun number_le_zero :: "number \<Rightarrow> bool" where
  "number_le_zero NaN = False"
| "number_le_zero NegInfinity = True"
| "number_le_zero (Num x) = (x \<le> 0)"
| "number_le_zero PosInfinity = False"

text \<open>
  A thrown value, as far as the hook reads it: \<open>error.reason\<close>, \<open>error.message\<close>,
  \<open>error.code\<close> and \<open>String(error)\<close>. A property that is absent is \<open>None\<close>.
\<close>

datatype error_code = CodeString string | CodeNumber int

record js_error =
  err_reason :: "string option"
  err_message :: "string option"
  err_code :: "error_code option"
  err_toString :: string

definition Error :: "string \<Rightarrow> js_error" where
  "Error msg =
     \<lparr>err_reason = None, err_message = Some msg, err_code = None,
      err_toString = ''Error: '' @ msg\<rparr>"

text \<open>\<open>!s\<close> is true of a string that is undefined or empty; \<open>a || b\<close> on strings.\<close>

definition truthy :: "string option \<Rightarrow> bool" where
  "truthy s = (case s of None \<Rightarrow> False | Some x \<Rightarrow> x \<noteq> [])"

definition or_else :: "string option \<Rightarrow> string \<Rightarrow> string" where
  "or_else a b = (case a of None \<Rightarrow> b | Some x \<Rightarrow> if x = [] then b else x)"

text \<open>\<open>s.includes(t)\<close>, \<open>s.startsWith(t)\<close>, \<open>s.toLowerCase()\<close> (on ASCII) and
  \<open>s.replace(t, r)\<close>, which replaces the first occurrence.\<close>

definition str_includes :: "string \<Rightarrow> string \<Rightarrow> bool" where
  "str_includes s t = sublist t s"

definition startsWith :: "string \<Rightarrow> string \<Rightarrow> bool" where
  "startsWith s t = prefix t s"

definition lowerCase :: "char \<Rightarrow> char" where
  "lowerCase c =
     (case map_of (zip ''ABCDEFGHIJKLMNOPQRSTUVWXYZ'' ''abcdefghijklmnopqrstuvwxyz'') c of
        None \<Rightarrow> c | Some l \<Rightarrow> l)"

definition toLowerCase :: "string \<Rightarrow> string" where
  "toLowerCase s = map lowerCase s"

fun replace :: "string \<Rightarrow> string \<Rightarrow> string \<Rightarrow> string" where
  "replace [] t r = (if t = [] then r else [])"
| "replace (c # cs) t r =
     (if prefix t (c # cs) then r @ drop (length t) (c # cs) else c # replace cs t r)"

text \<open>A natural number in decimal, as a template literal or \<open>toString\<close> prints it.\<close>

fun toString :: "nat \<Rightarrow> string" where
  "toString n =
     (if n < 10 then [''0123456789'' ! n] else toString (n div 10) @ [''0123456789'' ! (n mod 10)])"

declare toString.simps [simp del]

text \<open>\<open>ethers.hexlify\<close> of a byte array.\<close>

definition hexDigit :: "nat \<Rightarrow> char" where
  "hexDigit n = ''0123456789abcdef'' ! n"

definition hexlify :: "bytes \<Rightarrow> string" where
  "hexlify bs = ''0x'' @ concat (map (\<lambda>b. [hexDigit (unat b div 16), hexDigit (unat b mod 16)]) bs)"


subsection \<open>The hook's inputs, its state and the outside world\<close>

text \<open>
  What the callbacks close over: the configured contract address, the signer, the
  encryption-runtime instance, the account address, the provider and the chain id. Of the
  signer and the provider only their presence is read; of the instance, also whether it
  has the methods \<open>generateKeypair\<close> and \<open>createEIP712\<close>.
\<close>

datatype signer = JsonRpcSigner
datatype provider = JsonRpcProvider

record fhevm_instance =
  has_generateKeypair :: bool
  has_createEIP712 :: bool

record hook =
  contractAddress :: "string option"
  ethersSigner :: "signer option"
  fhevmInstance :: "fhevm_instance option"
  address :: "string option"
  ethersProvider :: "provider option"
  chainId :: nat

record encrypted =
  enc_handles :: "bytes list"
  enc_inputProof :: bytes

record keypair =
  publicKey :: bytes
  privateKey :: bytes

record eip712_domain =
  domain_name :: string
  domain_version :: string
  domain_chainId :: nat
  domain_verifyingContract :: string

record eip712_message =
  msg_publicKey :: string
  msg_contractAddresses :: "string list"
  msg_startTimestamp :: string
  msg_durationDays :: string

record eip712 =
  domain :: eip712_domain
  types :: "(string \<times> string) list"
  message_of :: eip712_message

record ClientExpenseRecord =
  rec_timestamp :: nat
  rec_category :: string
  rec_index :: nat

text \<open>
  Every call that leaves the hook (to the encryption runtime, the provider, the contract,
  the signer, the timer) is a \<open>request\<close>, logged in the state in the order made.
\<close>

datatype request =
  Encrypt string string number
| GetCode string
| SendAddExpense string bytes bytes string
| WaitForReceipt
| Delay nat
| CallHasInitialized string string
| CallGetEncryptedMonthlyTotal string string
| CallGetExpenseRecordCount string string
| CallGetExpenseRecord string string nat
| GetBlockNumber
| GenerateKeypair
| CreateEIP712 bytes "string list" string string
| SignTypedData eip712
| UserDecrypt string string keypair string "string list" string string string

text \<open>
  The React state of the hook (\<open>useState\<close>), and the log of requests. What the hook
  writes to the console is not part of the state: the user interface does not show it.
\<close>

record hook_state =
  encryptedTotal :: "string option"
  decryptedTotal :: "nat option"
  expenseRecords :: "ClientExpenseRecord list"
  isLoading :: bool
  message :: "string option"
  calls :: "request list"

text \<open>
  The outside world answers each request with a value or throws (\<open>Inl\<close>). The answer
  may depend on the requests made before it, so that the same question can get different
  answers at different times. \<open>w_now\<close> is \<open>Date.now()\<close>, in milliseconds. The
  answers have the types of the contract's ABI: a \<open>bytes32\<close> comes back as a string, so
  of \<open>typeof x === "string" ? x : ethers.hexlify(x)\<close> the first branch is the one taken;
  a \<open>uint256\<close> comes back as an integer, which \<open>Number\<close> keeps.
\<close>

record world =
  w_encrypt :: "request list \<Rightarrow> string \<Rightarrow> string \<Rightarrow> number \<Rightarrow> js_error + encrypted"
  w_getCode :: "request list \<Rightarrow> string \<Rightarrow> js_error + string"
  w_addExpense :: "request list \<Rightarrow> string \<Rightarrow> bytes \<Rightarrow> bytes \<Rightarrow> string \<Rightarrow> js_error + unit"
  w_wait :: "request list \<Rightarrow> js_error + unit"
  w_hasInitialized :: "request list \<Rightarrow> string \<Rightarrow> string \<Rightarrow> js_error + bool"
  w_getEncryptedMonthlyTotal :: "request list \<Rightarrow> string \<Rightarrow> string \<Rightarrow> js_error + string"
  w_getExpenseRecordCount :: "request list \<Rightarrow> string \<Rightarrow> string \<Rightarrow> js_error + nat"
  w_getExpenseRecord :: "request list \<Rightarrow> string \<Rightarrow> string \<Rightarrow> nat \<Rightarrow> js_error + nat \<times> string"
  w_getBlockNumber :: "request list \<Rightarrow> js_error + nat"
  w_now :: "request list \<Rightarrow> nat"
  w_generateKeypair :: "request list \<Rightarrow> js_error + keypair"
  w_createEIP712 :: "request list \<Rightarrow> bytes \<Rightarrow> string list \<Rightarrow> string \<Rightarrow> string \<Rightarrow> js_error + eip712"
  w_signTypedData :: "request list \<Rightarrow> eip712 \<Rightarrow> js_error + string"
  w_userDecrypt ::
    "request list \<Rightarrow> string \<Rightarrow> string \<Rightarrow> keypair \<Rightarrow> string \<Rightarrow> string list \<Rightarrow> string \<Rightarrow> string
       \<Rightarrow> string \<Rightarrow> js_error + (string \<times> nat) list"

type_synonym 'a async = "hook_state \<Rightarrow> (js_error + 'a) \<times> hook_state"

text \<open>
  \<open>await m f\<close>: run \<open>m\<close>; when it throws, the rest is skipped and the exception goes
  on with the state reached; otherwise continue with its value.
\<close>

definition await :: "'a async \<Rightarrow> ('a \<Rightarrow> 'b async) \<Rightarrow> 'b async" where
  "await m f st = (case m st of (Inl e, st') \<Rightarrow> (Inl e, st') | (Inr x, st') \<Rightarrow> f x st')"

definition return :: "'a \<Rightarrow> 'a async" where
  "return x st = (Inr x, st)"

definition throw :: "js_error \<Rightarrow> 'a async" where
  "throw e st = (Inl e, st)"

definition perform :: "request \<Rightarrow> (request list \<Rightarrow> js_error + 'a) \<Rightarrow> 'a async" where
  "perform q answer st = (answer (calls st), st\<lparr>calls := calls st @ [q]\<rparr>)"

definition update :: "(hook_state \<Rightarrow> hook_state) \<Rightarrow> unit async" where
  "update f st = (Inr (), f st)"

definition setMessage :: "string \<Rightarrow> hook_state \<Rightarrow> hook_state" where
  "setMessage m st = st\<lparr>message := Some m\<rparr>"

definition setIsLoading :: "bool \<Rightarrow> hook_state \<Rightarrow> hook_state" where
  "setIsLoading b st = st\<lparr>isLoading := b\<rparr>"

definition setEncryptedTotal :: "string option \<Rightarrow> hook_state \<Rightarrow> hook_state" where
  "setEncryptedTotal v st = st\<lparr>encryptedTotal := v\<rparr>"

definition setDecryptedTotal :: "nat option \<Rightarrow> hook_state \<Rightarrow> hook_state" where
  "setDecryptedTotal v st = st\<lparr>decryptedTotal := v\<rparr>"

definition setExpenseRecords :: "ClientExpenseRecord list \<Rightarrow> hook_state \<Rightarrow> hook_state" where
  "setExpenseRecords v st = st\<lparr>expenseRecords := v\<rparr>"

text \<open>
  \<open>try { m } catch (e) { handler e }\<close> and \<open>try { m } finally { f }\<close>, where the
  \<open>finally\<close> blocks of the hook only set state.
\<close>

definition try_catch :: "'a async \<Rightarrow> (js_error \<Rightarrow> 'a async) \<Rightarrow> 'a async" where
  "try_catch m handler st =
     (case m st of (Inl e, st') \<Rightarrow> handler e st' | (Inr x, st') \<Rightarrow> (Inr x, st'))"

definition try_finally :: "'a async \<Rightarrow> (hook_state \<Rightarrow> hook_state) \<Rightarrow> 'a async" where
  "try_finally m f st = (case m st of (r, st') \<Rightarrow> (r, f st'))"

subsection \<open>loadExpenseRecords\<close>

fun fetchRecords ::
  "world \<Rightarrow> string \<Rightarrow> string \<Rightarrow> nat list \<Rightarrow> ClientExpenseRecord list
     \<Rightarrow> ClientExpenseRecord list async" where
  "fetchRecords w ca a [] records = return records"
| "fetchRecords w ca a (i # rest) records =
     await (perform (CallGetExpenseRecord ca a i) (\<lambda>cs. w_getExpenseRecord w cs ca a i))
       (\<lambda>(timestamp, category).
          fetchRecords w ca a rest
            (records @ [\<lparr>rec_timestamp = timestamp, rec_category = category, rec_index = i\<rparr>]))"

definition loadExpenseRecords_try :: "world \<Rightarrow> string \<Rightarrow> string \<Rightarrow> unit async" where
  "loadExpenseRecords_try w ca a =
     await (perform (CallGetExpenseRecordCount ca a) (\<lambda>cs. w_getExpenseRecordCount w cs ca a))
       (\<lambda>count.
     await (fetchRecords w ca a [0..<count] []) (\<lambda>records.
     update (setExpenseRecords records)))"

text \<open>The \<open>catch\<close> of \<open>loadExpenseRecords\<close> writes to the console and nothing else.\<close>

definition loadExpenseRecords :: "world \<Rightarrow> hook \<Rightarrow> unit async" where
  "loadExpenseRecords w h =
     (if \<not> truthy (contractAddress h) \<or> ethersProvider h = None \<or> \<not> truthy (address h)
      then return ()
      else try_catch (loadExpenseRecords_try w (the (contractAddress h)) (the (address h)))
             (\<lambda>error. return ()))"

subsection \<open>loadEncryptedTotal\<close>

definition hardhat_unreachable :: string where
  "hardhat_unreachable =
     ''Cannot connect to Hardhat node. Please ensure 'npx hardhat node' is running on http://localhost:8545''"

definition not_deployed :: "string \<Rightarrow> string" where
  "not_deployed ca = ''Contract not deployed at '' @ ca @ ''. Please deploy the contract first.''"

text \<open>What follows the connectivity check, inside the \<open>try\<close>.\<close>

definition loadEncryptedTotal_read :: "world \<Rightarrow> hook \<Rightarrow> string \<Rightarrow> string \<Rightarrow> unit async" where
  "loadEncryptedTotal_read w h ca a =
     await (perform (GetCode ca) (\<lambda>cs. w_getCode w cs ca)) (\<lambda>contractCode.
     if contractCode = ''0x'' \<or> length contractCode \<le> 2
     then await (update (setMessage (not_deployed ca))) (\<lambda>_. update (setEncryptedTotal None))
     else
       await (perform (CallHasInitialized ca a) (\<lambda>cs. w_hasInitialized w cs ca a)) (\<lambda>hasInit.
       if \<not> hasInit
       then await (update (setEncryptedTotal None)) (\<lambda>_. update (setDecryptedTotal None))
       else
         await (perform (CallGetEncryptedMonthlyTotal ca a)
                  (\<lambda>cs. w_getEncryptedMonthlyTotal w cs ca a)) (\<lambda>encrypted.
         await (update (setEncryptedTotal (Some encrypted))) (\<lambda>_.
         loadExpenseRecords w h))))"

text \<open>
  The \<open>try\<close> block. When \<open>getBlockNumber\<close> throws, the inner \<open>catch\<close> returns from
  the function with the Hardhat notice on chain 31337 and rethrows on any other chain.
\<close>

definition loadEncryptedTotal_try :: "world \<Rightarrow> hook \<Rightarrow> string \<Rightarrow> string \<Rightarrow> unit async" where
  "loadEncryptedTotal_try w h ca a =
     await (update (setIsLoading True)) (\<lambda>_ st.
       case perform GetBlockNumber (w_getBlockNumber w) st of
         (Inl providerError, st') \<Rightarrow>
           if chainId h = 31337 then update (setMessage hardhat_unreachable) st'
           else throw providerError st'
       | (Inr blockNumber, st') \<Rightarrow> loadEncryptedTotal_read w h ca a st')"

definition loadEncryptedTotal_errorMessage :: "hook \<Rightarrow> js_error \<Rightarrow> string" where
  "loadEncryptedTotal_errorMessage h error =
     (if err_code error = Some (CodeString ''UNKNOWN_ERROR'')
         \<or> err_code error = Some (CodeNumber (- 32603))
      then (if chainId h = 31337 then hardhat_unreachable
            else ''Network error: '' @ or_else (err_message error) ''Failed to connect to blockchain'')
      else if (case err_message error of None \<Rightarrow> False
               | Some m \<Rightarrow> str_includes m ''Failed to fetch'')
      then (if chainId h = 31337 then hardhat_unreachable
            else ''Network connection failed. Please check your internet connection and try again.'')
      else or_else (err_message error) (err_toString error))"

definition loadEncryptedTotal :: "world \<Rightarrow> hook \<Rightarrow> unit async" where
  "loadEncryptedTotal w h =
     (if \<not> truthy (contractAddress h) \<or> ethersProvider h = None \<or> \<not> truthy (address h)
      then return ()
      else
        try_finally
          (try_catch (loadEncryptedTotal_try w h (the (contractAddress h)) (the (address h)))
             (\<lambda>error.
                update (setMessage (''Error loading total: '' @ loadEncryptedTotal_errorMessage h error))))
          (setIsLoading False))"

subsection \<open>addExpense\<close>

text \<open>
  \<open>const error = new Error(m); setMessage(error.message); throw error\<close>, the body of
  each of the six guards. Past the guards the contract address and the account address
  are present, so the test \<open>contractAddress && ethersProvider && address\<close> around the
  reload is true.
\<close>

definition fail_with :: "string \<Rightarrow> unit async" where
  "fail_with m = await (update (setMessage m)) (\<lambda>_. throw (Error m))"

text \<open>
  The reload after the receipt, in its own \<open>try\<close>: its \<open>catch\<close> sets a notice and
  does not rethrow.
\<close>

definition refreshAfterAdd_try :: "world \<Rightarrow> hook \<Rightarrow> string \<Rightarrow> string \<Rightarrow> unit async" where
  "refreshAfterAdd_try w h ca a =
     await (perform (GetCode ca) (\<lambda>cs. w_getCode w cs ca)) (\<lambda>contractCode.
     if length contractCode > 2
     then
       await (perform (CallHasInitialized ca a) (\<lambda>cs. w_hasInitialized w cs ca a)) (\<lambda>hasInit.
       if hasInit
       then
         await (perform (CallGetEncryptedMonthlyTotal ca a)
                  (\<lambda>cs. w_getEncryptedMonthlyTotal w cs ca a)) (\<lambda>encrypted.
         await (update (setEncryptedTotal (Some (toLowerCase encrypted)))) (\<lambda>_.
         await (loadExpenseRecords w h) (\<lambda>_.
         update (setMessage
           ''Expense added successfully! Wait a moment, then you can decrypt your total.''))))
       else update (setMessage
           ''Expense added, but initialization check failed. Please try refreshing.''))
     else return ())"

definition refreshAfterAdd :: "world \<Rightarrow> hook \<Rightarrow> string \<Rightarrow> string \<Rightarrow> unit async" where
  "refreshAfterAdd w h ca a =
     try_catch (refreshAfterAdd_try w h ca a)
       (\<lambda>err. update (setMessage
          ''Expense added, but failed to refresh data. Please refresh manually.''))"

definition addExpense_try ::
  "world \<Rightarrow> hook \<Rightarrow> string \<Rightarrow> string \<Rightarrow> number \<Rightarrow> string \<Rightarrow> unit async" where
  "addExpense_try w h ca a amount cat =
     await (update (setIsLoading True)) (\<lambda>_.
     await (update (setMessage ''Encrypting expense amount...'')) (\<lambda>_.
     await (perform (Encrypt ca a amount) (\<lambda>cs. w_encrypt w cs ca a amount)) (\<lambda>encrypted.
     await (update (setMessage ''Submitting to blockchain...'')) (\<lambda>_.
     await (perform (GetCode ca) (\<lambda>cs. w_getCode w cs ca)) (\<lambda>contractCode.
     if contractCode = ''0x'' \<or> length contractCode \<le> 2
     then throw (Error (not_deployed ca))
     else
       (case enc_handles encrypted of
          [] \<Rightarrow> throw (Error ''Encryption failed - missing handle or proof'')
        | encryptedAmountHandle # _ \<Rightarrow>
            if enc_inputProof encrypted = []
            then throw (Error ''Encryption failed - missing handle or proof'')
            else
              await (perform (SendAddExpense ca encryptedAmountHandle (enc_inputProof encrypted) cat)
                       (\<lambda>cs. w_addExpense w cs ca encryptedAmountHandle (enc_inputProof encrypted) cat))
                (\<lambda>tx.
              await (perform WaitForReceipt (w_wait w)) (\<lambda>receipt.
              await (update (setMessage ''Expense added successfully. Refreshing data...'')) (\<lambda>_.
              await (perform (Delay 2000) (\<lambda>cs. Inr ())) (\<lambda>_.
              refreshAfterAdd w h ca a))))))))))"

definition addExpense_errorMessage :: "js_error \<Rightarrow> string" where
  "addExpense_errorMessage error =
     or_else (err_reason error) (or_else (err_message error) (err_toString error))"

definition hook_addExpense :: "world \<Rightarrow> hook \<Rightarrow> number \<Rightarrow> string \<Rightarrow> unit async" where
  "hook_addExpense w h amount cat =
     (if \<not> truthy (contractAddress h)
      then fail_with
        ''Contract address not configured. Please set VITE_CONTRACT_ADDRESS in .env.local''
      else if ethersSigner h = None
      then fail_with ''Wallet signer not available. Please ensure your wallet is connected.''
      else if fhevmInstance h = None
      then fail_with ''FHEVM instance not initialized. Please wait for initialization.''
      else if \<not> truthy (address h)
      then fail_with ''Wallet address not available. Please connect your wallet.''
      else if ethersProvider h = None
      then fail_with ''Ethers provider not available.''
      else if number_le_zero amount
      then fail_with ''Expense amount must be greater than 0''
      else
        try_finally
          (try_catch
             (addExpense_try w h (the (contractAddress h)) (the (address h)) amount cat)
             (\<lambda>error.
                await (update (setMessage (''Error: '' @ addExpense_errorMessage error)))
                  (\<lambda>_. throw error)))
          (setIsLoading False))"

subsection \<open>decryptTotal\<close>

definition zero_keypair :: keypair where
  "zero_keypair = \<lparr>publicKey = replicate 32 0, privateKey = replicate 32 0\<rparr>"

definition fallback_eip712 :: "hook \<Rightarrow> keypair \<Rightarrow> string list \<Rightarrow> string \<Rightarrow> string \<Rightarrow> eip712" where
  "fallback_eip712 h kp contractAddresses startTimestamp durationDays =
     \<lparr>domain = \<lparr>domain_name = ''FHEVM'', domain_version = ''1'', domain_chainId = chainId h,
                 domain_verifyingContract = hd contractAddresses\<rparr>,
      types = [(''publicKey'', ''bytes''), (''contractAddresses'', ''address[]''),
               (''startTimestamp'', ''string''), (''durationDays'', ''string'')],
      message_of = \<lparr>msg_publicKey = hexlify (publicKey kp),
                     msg_contractAddresses = contractAddresses,
                     msg_startTimestamp = startTimestamp, msg_durationDays = durationDays\<rparr>\<rparr>"

definition not_initialized_message :: string where
  "not_initialized_message =
     ''You haven't added any expenses yet. Please add expenses first before decrypting.''"

definition decryptTotal_try ::
  "world \<Rightarrow> hook \<Rightarrow> string \<Rightarrow> string \<Rightarrow> fhevm_instance \<Rightarrow> unit async" where
  "decryptTotal_try w h ca a inst =
     await (update (setMessage ''Checking permissions and fetching latest encrypted total...'')) (\<lambda>_.
     await (perform (CallHasInitialized ca a) (\<lambda>cs. w_hasInitialized w cs ca a)) (\<lambda>hasInit.
     if \<not> hasInit then throw (Error not_initialized_message)
     else
     await (perform (CallGetEncryptedMonthlyTotal ca a)
              (\<lambda>cs. w_getEncryptedMonthlyTotal w cs ca a)) (\<lambda>latestEncryptedTotal.
     let handle = (if startsWith latestEncryptedTotal ''0x''
                   then toLowerCase latestEncryptedTotal else latestEncryptedTotal)
     in
     if handle = [] \<or> handle = ''0x'' \<or> length handle \<noteq> 66
     then throw (Error (''Invalid handle format: '' @ handle @
                         ''. Expected 66 characters (0x + 64 hex chars)''))
     else
     await (update (setEncryptedTotal (Some handle))) (\<lambda>_.
     await (update (setMessage ''Decrypting monthly total...'')) (\<lambda>_.
     await (if has_generateKeypair inst then perform GenerateKeypair (w_generateKeypair w)
            else return zero_keypair) (\<lambda>kp.
     await (\<lambda>st. (Inr (toString (w_now w (calls st) div 1000)), st)) (\<lambda>startTimestamp.
     let contractAddresses = [ca]; durationDays = ''10'' in
     await (if has_createEIP712 inst
            then perform (CreateEIP712 (publicKey kp) contractAddresses startTimestamp durationDays)
                   (\<lambda>cs. w_createEIP712 w cs (publicKey kp) contractAddresses startTimestamp
                            durationDays)
            else return (fallback_eip712 h kp contractAddresses startTimestamp durationDays))
       (\<lambda>eip712.
     await (perform (SignTypedData eip712) (\<lambda>cs. w_signTypedData w cs eip712)) (\<lambda>signature.
     let signatureForDecrypt =
           (if chainId h = 31337 then replace signature ''0x'' [] else signature)
     in
     await (perform (UserDecrypt handle ca kp signatureForDecrypt contractAddresses a
                       startTimestamp durationDays)
              (\<lambda>cs. w_userDecrypt w cs handle ca kp signatureForDecrypt contractAddresses a
                       startTimestamp durationDays)) (\<lambda>decryptedResult.
     let decrypted = (case map_of decryptedResult handle of None \<Rightarrow> 0 | Some v \<Rightarrow> v) in
     await (update (setDecryptedTotal (Some decrypted))) (\<lambda>_.
     update (setMessage (''Decrypted monthly total: '' @ toString decrypted)))))))))))))"

definition decryptTotal_errorMessage :: "js_error \<Rightarrow> string" where
  "decryptTotal_errorMessage error =
     (let errorMessage = or_else (err_message error) (err_toString error)
      in if str_includes errorMessage ''not authorized'' \<or> str_includes errorMessage ''authorized''
         then ''Decryption failed: You don't have permission to decrypt this handle. Please try adding an expense again or wait a few seconds.''
         else ''Error decrypting: '' @ errorMessage)"

definition decryptTotal :: "world \<Rightarrow> hook \<Rightarrow> unit async" where
  "decryptTotal w h =
     (if \<not> truthy (contractAddress h) \<or> ethersProvider h = None \<or> fhevmInstance h = None
         \<or> ethersSigner h = None \<or> \<not> truthy (address h)
      then update (setMessage ''Missing requirements for decryption'')
      else
        try_catch
          (decryptTotal_try w h (the (contractAddress h)) (the (address h)) (the (fhevmInstance h)))
          (\<lambda>error.
             await (update (setMessage (decryptTotal_errorMessage error))) (\<lambda>_. throw error)))"

subsection \<open>Hooks, states and worlds to run the model on\<close>

definition idle :: hook_state where
  "idle =
     \<lparr>encryptedTotal = None, decryptedTotal = None, expenseRecords = [], isLoading = False,
      message = None, calls = []\<rparr>"

definition sample_hook :: hook where
  "sample_hook =
     \<lparr>contractAddress = Some ''0x5FbDB2315678afecb367f032d93F642f64180aa3'',
      ethersSigner = Some JsonRpcSigner,
      fhevmInstance = Some \<lparr>has_generateKeypair = True, has_createEIP712 = True\<rparr>,
      address = Some ''0x70997970C51812dc3A010C7d01b50e0d17dc79C8'',
      ethersProvider = Some JsonRpcProvider,
      chainId = 31337\<rparr>"

definition offline :: world where
  "offline =
     \<lparr>w_encrypt = (\<lambda>cs ca a n. Inl (Error ''Failed to fetch'')),
      w_getCode = (\<lambda>cs ca. Inl (Error ''Failed to fetch'')),
      w_addExpense = (\<lambda>cs ca h p c. Inl (Error ''Failed to fetch'')),
      w_wait = (\<lambda>cs. Inl (Error ''Failed to fetch'')),
      w_hasInitialized = (\<lambda>cs ca a. Inl (Error ''Failed to fetch'')),
      w_getEncryptedMonthlyTotal = (\<lambda>cs ca a. Inl (Error ''Failed to fetch'')),
      w_getExpenseRecordCount = (\<lambda>cs ca a. Inl (Error ''Failed to fetch'')),
      w_getExpenseRecord = (\<lambda>cs ca a i. Inl (Error ''Failed to fetch'')),
      w_getBlockNumber = (\<lambda>cs. Inl (Error ''Failed to fetch'')),
      w_now = (\<lambda>cs. 0),
      w_generateKeypair = (\<lambda>cs. Inl (Error ''Failed to fetch'')),
      w_createEIP712 = (\<lambda>cs k c s d. Inl (Error ''Failed to fetch'')),
      w_signTypedData = (\<lambda>cs e. Inl (Error ''Failed to fetch'')),
      w_userDecrypt = (\<lambda>cs h ca k s c a st d. Inl (Error ''Failed to fetch''))\<rparr>"

text \<open>A world in which the node answers but the user has no expense yet.\<close>

definition fresh_chain :: world where
  "fresh_chain =
     offline\<lparr>w_getCode := (\<lambda>cs ca. Inr ''0x6080''),
             w_getBlockNumber := (\<lambda>cs. Inr 1),
             w_hasInitialized := (\<lambda>cs ca a. Inr False),
             w_getExpenseRecordCount := (\<lambda>cs ca a. Inr 0)\<rparr>"

definition mainnet_hook :: hook where
  "mainnet_hook = sample_hook\<lparr>chainId := 1\<rparr>"

text \<open>
  A world in which the write goes through and the node stops answering afterwards.
\<close>

definition node_lost_after_write :: world where
  "node_lost_after_write =
     offline\<lparr>w_encrypt := (\<lambda>cs ca a n. Inr \<lparr>enc_handles = [[1]], enc_inputProof = [2]\<rparr>),
             w_getCode := (\<lambda>cs ca. if length cs < 2 then Inr ''0x6080''
                                     else Inl (Error ''Failed to fetch'')),
             w_addExpense := (\<lambda>cs ca h p c. Inr ()),
             w_wait := (\<lambda>cs. Inr ())\<rparr>"

section \<open>Properties of the ledger contract\<close>

subsection \<open>One transaction, and a list of transactions\<close>

lemma transact_revert:
  "decoded rt this c = None \<Longrightarrow> transact rt this s c = s"
  by (simp add: transact_def call_addExpense_def addExpense_def FHE_fromExternal_def decoded_def)

lemma call_addExpense_success:
  "decoded rt this c = Some a \<Longrightarrow> call_addExpense rt this c s = Inr (transact rt this s c)"
  by (simp add: transact_def call_addExpense_def addExpense_def FHE_fromExternal_def decoded_def
      Let_def)

lemmas transact_unfold =
  transact_def call_addExpense_def addExpense_def FHE_fromExternal_def decoded_def
  update_total_def push_record_def FHE_allow_def emit_def Let_def recorded_def

lemma transact_records:
  "decoded rt this c = Some a \<Longrightarrow>
     st_expenseRecords (transact rt this s c) u =
       (if u = msg_sender c then st_expenseRecords s u @ [recorded c] else st_expenseRecords s u)"
  by (simp add: transact_unfold)

lemma transact_initialized:
  "decoded rt this c = Some a \<Longrightarrow>
     st_hasInitialized (transact rt this s c) u = (u = msg_sender c \<or> st_hasInitialized s u)"
  by (simp add: transact_unfold)

lemma transact_total:
  "decoded rt this c = Some a \<Longrightarrow>
     st_encryptedMonthlyTotals (transact rt this s c) u =
       (if u = msg_sender c
        then (if st_hasInitialized s u then fhe_add rt (st_encryptedMonthlyTotals s u) a else a)
        else st_encryptedMonthlyTotals s u)"
  by (simp add: transact_unfold)

lemma execute_Cons: "execute rt this s (c # cs) = execute rt this (transact rt this s c) cs"
  by (simp add: execute_def)

lemma execute_append:
  "execute rt this s (cs @ cs') = execute rt this (execute rt this s cs) cs'"
  by (simp add: execute_def)

lemma execute_records:
  "st_expenseRecords (execute rt this s cs) u =
     st_expenseRecords s u @ map recorded (addsOf rt this u cs)"
proof (induction cs arbitrary: s)
  case Nil
  show ?case by (simp add: execute_def addsOf_def)
next
  case (Cons c cs)
  show ?case
  proof (cases "decoded rt this c")
    case None
    then show ?thesis
      using Cons.IH [of s] by (simp add: execute_Cons transact_revert addsOf_def)
  next
    case (Some a)
    then show ?thesis
      using Cons.IH [of "transact rt this s c"]
      by (simp add: execute_Cons transact_records addsOf_def)
  qed
qed

lemma execute_initialized:
  "st_hasInitialized (execute rt this s cs) u =
     (st_hasInitialized s u \<or> addsOf rt this u cs \<noteq> [])"
proof (induction cs arbitrary: s)
  case Nil
  show ?case by (simp add: execute_def addsOf_def)
next
  case (Cons c cs)
  show ?case
  proof (cases "decoded rt this c")
    case None
    then show ?thesis
      using Cons.IH [of s] by (simp add: execute_Cons transact_revert addsOf_def)
  next
    case (Some a)
    then show ?thesis
      using Cons.IH [of "transact rt this s c"]
      by (auto simp add: execute_Cons transact_initialized addsOf_def)
  qed
qed

lemma amountsOf_Cons:
  "amountsOf rt this u (c # cs) =
     (if msg_sender c = u
      then (case decoded rt this c of None \<Rightarrow> amountsOf rt this u cs
            | Some a \<Rightarrow> a # amountsOf rt this u cs)
      else amountsOf rt this u cs)"
  by (simp add: amountsOf_def split: option.splits)

lemma execute_total_initialized:
  "st_hasInitialized s u \<Longrightarrow>
     st_encryptedMonthlyTotals (execute rt this s cs) u =
       foldl (fhe_add rt) (st_encryptedMonthlyTotals s u) (amountsOf rt this u cs)"
proof (induction cs arbitrary: s)
  case Nil
  show ?case by (simp add: execute_def amountsOf_def)
next
  case (Cons c cs)
  show ?case
  proof (cases "decoded rt this c")
    case None
    then show ?thesis
      using Cons.IH [of s] Cons.prems
      by (simp add: execute_Cons transact_revert amountsOf_Cons)
  next
    case (Some a)
    have "st_hasInitialized (transact rt this s c) u"
      using Some Cons.prems by (simp add: transact_initialized)
    then show ?thesis
      using Cons.IH [of "transact rt this s c"] Some Cons.prems
      by (simp add: execute_Cons transact_total amountsOf_Cons)
  qed
qed

lemma execute_total_fresh:
  "\<not> st_hasInitialized s u \<Longrightarrow>
     st_encryptedMonthlyTotals (execute rt this s cs) u =
       (case amountsOf rt this u cs of
          [] \<Rightarrow> st_encryptedMonthlyTotals s u
        | a # as \<Rightarrow> foldl (fhe_add rt) a as)"
proof (induction cs arbitrary: s)
  case Nil
  show ?case by (simp add: execute_def amountsOf_def)
next
  case (Cons c cs)
  show ?case
  proof (cases "decoded rt this c")
    case None
    then show ?thesis
      using Cons.IH [of s] Cons.prems
      by (simp add: execute_Cons transact_revert amountsOf_Cons)
  next
    case (Some a)
    show ?thesis
    proof (cases "msg_sender c = u")
      case True
      have "st_hasInitialized (transact rt this s c) u"
        using Some True by (simp add: transact_initialized)
      then show ?thesis
        using execute_total_initialized [where rt = rt and this = this and s = "transact rt this s c" and u = u and cs = cs] Some True Cons.prems
        by (simp add: execute_Cons transact_total amountsOf_Cons)
    next
      case False
      have "\<not> st_hasInitialized (transact rt this s c) u"
        using Some False Cons.prems by (simp add: transact_initialized)
      moreover have "st_encryptedMonthlyTotals (transact rt this s c) u = st_encryptedMonthlyTotals s u"
        using Some False by (simp add: transact_total)
      ultimately show ?thesis
        using Cons.IH [of "transact rt this s c"] False
        by (simp add: execute_Cons amountsOf_Cons split: list.splits)
    qed
  qed
qed

lemma decrypt_foldl:
  "homomorphic rt \<Longrightarrow>
     fhe_decrypt rt (foldl (fhe_add rt) a as) = fhe_decrypt rt a + sum_list (map (fhe_decrypt rt) as)"
  by (induction as arbitrary: a) (simp_all add: homomorphic_def add.assoc)

lemma unat_sum_list:
  "unat (sum_list (ws :: 32 word list)) = sum_list (map unat ws) mod 2 ^ 32"
proof (induction ws)
  case Nil
  show ?case by simp
next
  case (Cons w ws)
  have "unat (w + sum_list ws) = (unat w + unat (sum_list ws)) mod 2 ^ 32"
    by (simp add: unat_word_ariths)
  also have "\<dots> = (unat w + sum_list (map unat ws) mod 2 ^ 32) mod 2 ^ 32"
    by (simp only: Cons.IH)
  also have "\<dots> = (unat w + sum_list (map unat ws)) mod 2 ^ 32"
    by (rule mod_add_right_eq)
  finally show ?case by simp
qed

lemma addsOf_amountsOf:
  "amountsOf rt this u cs = map (\<lambda>c. the (decoded rt this c)) (addsOf rt this u cs)"
  by (induction cs) (auto simp add: amountsOf_def addsOf_def split: option.splits)

lemma execute_ignores_decrypt:
  "execute (rt\<lparr>fhe_decrypt := d\<rparr>) this s cs = execute rt this s cs"
proof -
  have "transact (rt\<lparr>fhe_decrypt := d\<rparr>) this = transact rt this"
    by (intro ext) (simp add: transact_unfold split: option.splits)
  then show ?thesis by (simp add: execute_def)
qed

subsection \<open>The sample runtime and the sample transactions\<close>

lemma take_bit_32_256_add:
  "take_bit 32 (take_bit 256 a + take_bit 256 b) = take_bit 32 (a + b :: int)"
proof -
  have "take_bit 32 (take_bit 256 a + take_bit 256 b) =
        take_bit 32 (take_bit 32 (take_bit 256 a) + take_bit 32 (take_bit 256 b))"
    by (simp only: take_bit_add)
  also have "\<dots> = take_bit 32 (take_bit 32 a + take_bit 32 b)"
    by simp
  also have "\<dots> = take_bit 32 (a + b)"
    by (simp only: take_bit_add)
  finally show ?thesis .
qed

lemma ucast_plus_down: "(ucast (a + b :: 256 word) :: 32 word) = ucast a + ucast b"
  by transfer (simp add: take_bit_32_256_add)

lemma homomorphic_sample: "homomorphic sample_runtime"
  by (simp add: homomorphic_def sample_runtime_def ucast_plus_down)

lemma sample_amounts: "amountsOf sample_runtime 7 1 sample_trace = [1000, 500]"
  by (simp add: amountsOf_def sample_trace_def sample_call_def decoded_def sample_runtime_def)

lemma sample_adds:
  "addsOf sample_runtime 7 1 sample_trace =
     [sample_call 1 100 1000 ''materials'', sample_call 1 200 500 ''labor'']"
  by (simp add: addsOf_def sample_trace_def sample_call_def decoded_def sample_runtime_def)

lemma sample_adds_none: "addsOf sample_runtime 7 3 sample_trace = []"
  by (simp add: addsOf_def sample_trace_def sample_call_def decoded_def sample_runtime_def)

subsection \<open>The claims about the contract\<close>

text \<open>
  C1 (as the code has it). Take any list of transactions to the contract, by any users,
  reverting or not, and a user whose successful adds decode to the amounts
  \<open>a\<^sub>1, \<dots>, a\<^sub>n\<close> with \<open>n \<ge> 1\<close>. The stored total of that user is the first amount
  on the first add, with each later amount added to it homomorphically, in order. With a
  homomorphic runtime it decrypts to the sum of the plaintext amounts modulo \<open>2 ^ 32\<close>:
  to exactly the sum whenever the sum is below \<open>2 ^ 32\<close>. The contract never decrypts:
  the storage it reaches does not depend on the decryption function.

  The claim as worded, that the total decrypts to exactly the sum, fails when the sum does
  not fit in 32 bits: after adds of \<open>4294967295\<close> and \<open>1\<close> the total decrypts to
  \<open>0\<close>.
\<close>

theorem total_decrypts_to_sum_mod:
  assumes "homomorphic rt" and "amountsOf rt this user cs = a # as"
  shows "getEncryptedMonthlyTotal (execute rt this deployed cs) user = foldl (fhe_add rt) a as
       \<and> plain rt (getEncryptedMonthlyTotal (execute rt this deployed cs) user) =
           sum_list (map (plain rt) (amountsOf rt this user cs)) mod 2 ^ 32
       \<and> execute (rt\<lparr>fhe_decrypt := d\<rparr>) this deployed cs = execute rt this deployed cs"
proof -
  have fresh: "\<not> st_hasInitialized deployed user"
    by (simp add: deployed_def)
  have total: "getEncryptedMonthlyTotal (execute rt this deployed cs) user = foldl (fhe_add rt) a as"
    using execute_total_fresh [OF fresh, where rt = rt and this = this and cs = cs] assms(2)
    by (simp add: getEncryptedMonthlyTotal_def)
  have "fhe_decrypt rt (foldl (fhe_add rt) a as) = sum_list (map (fhe_decrypt rt) (a # as))"
    using decrypt_foldl [OF assms(1)] by simp
  then have "unat (fhe_decrypt rt (foldl (fhe_add rt) a as)) =
      sum_list (map unat (map (fhe_decrypt rt) (a # as))) mod 2 ^ 32"
    by (simp only: unat_sum_list)
  then have "plain rt (foldl (fhe_add rt) a as) = sum_list (map (plain rt) (a # as)) mod 2 ^ 32"
    by (simp add: plain_def [abs_def] comp_def)
  then show ?thesis
    using total assms(2) by (simp add: execute_ignores_decrypt)
qed

theorem total_decrypts_to_sum_mod_witness:
  "homomorphic sample_runtime \<and> amountsOf sample_runtime 7 1 sample_trace = [1000, 500]
   \<and> plain sample_runtime (getEncryptedMonthlyTotal (execute sample_runtime 7 deployed sample_trace) 1) = 1500"
proof -
  have "plain sample_runtime (getEncryptedMonthlyTotal (execute sample_runtime 7 deployed sample_trace) 1) =
      sum_list (map (plain sample_runtime) (amountsOf sample_runtime 7 1 sample_trace)) mod 2 ^ 32"
    using total_decrypts_to_sum_mod [OF homomorphic_sample sample_amounts] by blast
  also have "\<dots> = 1500"
    by (simp only: sample_amounts) (simp add: plain_def sample_runtime_def)
  finally show ?thesis
    using homomorphic_sample sample_amounts by simp
qed

theorem total_exact_sum_counterexample:
  "plain sample_runtime (getEncryptedMonthlyTotal (execute sample_runtime 7 deployed
         [sample_call 1 100 0xFFFFFFFF ''materials'', sample_call 1 200 1 ''labor'']) 1)
     \<noteq> sum_list (map (plain sample_runtime) (amountsOf sample_runtime 7 1
         [sample_call 1 100 0xFFFFFFFF ''materials'', sample_call 1 200 1 ''labor'']))
   \<and> amountsOf sample_runtime 7 1
         [sample_call 1 100 0xFFFFFFFF ''materials'', sample_call 1 200 1 ''labor''] = [0xFFFFFFFF, 1]
   \<and> map (plain sample_runtime) [0xFFFFFFFF, 1] = [4294967295, 1]
   \<and> plain sample_runtime (getEncryptedMonthlyTotal (execute sample_runtime 7 deployed
         [sample_call 1 100 0xFFFFFFFF ''materials'', sample_call 1 200 1 ''labor'']) 1) = 0"
  by (simp add: amountsOf_def plain_def sample_runtime_def getEncryptedMonthlyTotal_def execute_def
      transact_unfold sample_call_def deployed_def)

text \<open>
  C2. After any list of transactions, \<open>getExpenseRecordCount\<close> of a user is the number
  of that user's successful adds, and \<open>getExpenseRecord\<close> at every index below it
  returns the timestamp and the category of the add at that position, in submission order.
  A transaction makes the user's list longer by exactly one when it is a successful add of
  that user and leaves its length alone otherwise, and the list before any transactions is
  a prefix of the list after them: nothing is deleted or reordered.
\<close>

theorem records_follow_adds:
  "getExpenseRecordCount (execute rt this deployed cs) user = length (addsOf rt this user cs)
   \<and> (\<forall>i < length (addsOf rt this user cs).
         getExpenseRecord (execute rt this deployed cs) user i =
           Inr (block_timestamp (addsOf rt this user cs ! i), arg_category (addsOf rt this user cs ! i)))
   \<and> length (st_expenseRecords (transact rt this s c) user) =
         length (st_expenseRecords s user) +
           (if msg_sender c = user \<and> decoded rt this c \<noteq> None then 1 else 0)
   \<and> prefix (st_expenseRecords s user) (st_expenseRecords (execute rt this s cs) user)"
proof -
  have recs: "st_expenseRecords (execute rt this deployed cs) user = map recorded (addsOf rt this user cs)"
    by (simp add: execute_records deployed_def)
  have count: "getExpenseRecordCount (execute rt this deployed cs) user = length (addsOf rt this user cs)"
    by (simp add: getExpenseRecordCount_def recs)
  have get: "\<forall>i < length (addsOf rt this user cs).
         getExpenseRecord (execute rt this deployed cs) user i =
           Inr (block_timestamp (addsOf rt this user cs ! i), arg_category (addsOf rt this user cs ! i))"
    by (simp add: getExpenseRecord_def recs recorded_def)
  have one: "length (st_expenseRecords (transact rt this s c) user) =
         length (st_expenseRecords s user) +
           (if msg_sender c = user \<and> decoded rt this c \<noteq> None then 1 else 0)"
  proof (cases "decoded rt this c")
    case None
    then show ?thesis by (simp add: transact_revert)
  next
    case (Some a)
    then show ?thesis by (auto simp add: transact_records)
  qed
  have pre: "prefix (st_expenseRecords s user) (st_expenseRecords (execute rt this s cs) user)"
    by (simp add: execute_records)
  from count get one pre show ?thesis by blast
qed

theorem records_follow_adds_witness:
  "getExpenseRecordCount (execute sample_runtime 7 deployed sample_trace) 1 = 2
   \<and> getExpenseRecord (execute sample_runtime 7 deployed sample_trace) 1 0 = Inr (100, ''materials'')
   \<and> getExpenseRecord (execute sample_runtime 7 deployed sample_trace) 1 1 = Inr (200, ''labor'')"
  using records_follow_adds [of sample_runtime 7 sample_trace 1]
  by (simp add: sample_adds sample_call_def)

text \<open>
  C3. For a user with no successful add in the transactions so far, \<open>hasInitialized\<close>
  is false and \<open>getEncryptedMonthlyTotal\<close> is the zero handle.
\<close>

theorem never_added_is_uninitialized:
  "addsOf rt this user cs = [] \<Longrightarrow>
     hasInitialized (execute rt this deployed cs) user = False
     \<and> getEncryptedMonthlyTotal (execute rt this deployed cs) user = 0"
proof -
  assume none: "addsOf rt this user cs = []"
  have fresh: "\<not> st_hasInitialized deployed user"
    by (simp add: deployed_def)
  have "amountsOf rt this user cs = []"
    using none by (simp add: addsOf_amountsOf)
  then have "st_encryptedMonthlyTotals (execute rt this deployed cs) user = 0"
    using execute_total_fresh [OF fresh, where rt = rt and this = this and cs = cs]
    by (simp add: deployed_def)
  moreover have "\<not> st_hasInitialized (execute rt this deployed cs) user"
    using none fresh by (simp add: execute_initialized)
  ultimately show ?thesis
    by (simp add: hasInitialized_def getEncryptedMonthlyTotal_def)
qed

theorem never_added_is_uninitialized_witness:
  "addsOf sample_runtime 7 3 sample_trace = []
   \<and> hasInitialized (execute sample_runtime 7 deployed sample_trace) 3 = False
   \<and> getEncryptedMonthlyTotal (execute sample_runtime 7 deployed sample_trace) 3 = 0"
  using never_added_is_uninitialized [OF sample_adds_none] sample_adds_none by simp

text \<open>
  C4. \<open>getExpenseRecord\<close> reverts, with the out-of-bounds message, exactly when the
  index is at least \<open>getExpenseRecordCount\<close>; below it, it returns the stored
  timestamp and category.
\<close>

theorem getExpenseRecord_out_of_bounds:
  "(getExpenseRecord s user index = Inl RecordIndexOutOfBounds \<longleftrightarrow>
      index \<ge> getExpenseRecordCount s user)
   \<and> (isl (getExpenseRecord s user index) \<longleftrightarrow> index \<ge> getExpenseRecordCount s user)
   \<and> (index < getExpenseRecordCount s user \<longrightarrow>
        getExpenseRecord s user index =
          Inr (timestamp (st_expenseRecords s user ! index),
               category (st_expenseRecords s user ! index)))"
  by (simp add: getExpenseRecord_def getExpenseRecordCount_def Let_def)

theorem getExpenseRecord_out_of_bounds_witness:
  "(1::nat) < getExpenseRecordCount (execute sample_runtime 7 deployed sample_trace) 1
   \<and> getExpenseRecord (execute sample_runtime 7 deployed sample_trace) 1 1 = Inr (200, ''labor'')
   \<and> getExpenseRecord (execute sample_runtime 7 deployed sample_trace) 1 2 = Inl RecordIndexOutOfBounds"
  using getExpenseRecord_out_of_bounds [of "execute sample_runtime 7 deployed sample_trace" 1 1]
    getExpenseRecord_out_of_bounds [of "execute sample_runtime 7 deployed sample_trace" 1 2]
  by (simp add: getExpenseRecordCount_def execute_records deployed_def sample_adds sample_call_def recorded_def)

text \<open>
  C5. A successful \<open>addExpense\<close> by \<open>A\<close> leaves the initialized flag, the encrypted
  total, the record count and the records of every other user \<open>B\<close> as they were.
\<close>

theorem addExpense_leaves_other_users:
  assumes "A \<noteq> B" and "addExpense rt this A now encryptedAmount inputProof cat s = Inr s'"
  shows "hasInitialized s' B = hasInitialized s B
       \<and> getEncryptedMonthlyTotal s' B = getEncryptedMonthlyTotal s B
       \<and> getExpenseRecordCount s' B = getExpenseRecordCount s B
       \<and> st_expenseRecords s' B = st_expenseRecords s B
       \<and> getExpenseRecord s' B index = getExpenseRecord s B index"
proof (cases "fhe_fromExternal rt encryptedAmount inputProof A this")
  case None
  then show ?thesis
    using assms(2) by (simp add: addExpense_def FHE_fromExternal_def)
next
  case (Some amount)
  then have s': "s' = emit (MonthlyTotalUpdated A now) (emit (ExpenseAdded A now cat)
      (FHE_allow (st_encryptedMonthlyTotals (push_record A now cat (update_total rt A amount s)) A) A
        (FHE_allow (st_encryptedMonthlyTotals (push_record A now cat (update_total rt A amount s)) A) this
          (push_record A now cat (update_total rt A amount s)))))"
    using assms(2)
    by (simp add: addExpense_def FHE_fromExternal_def Let_def FHE_allow_def push_record_def)
  have "st_hasInitialized s' B = st_hasInitialized s B"
    using assms(1) by (simp add: s' emit_def FHE_allow_def push_record_def update_total_def)
  moreover have "st_encryptedMonthlyTotals s' B = st_encryptedMonthlyTotals s B"
    using assms(1) by (simp add: s' emit_def FHE_allow_def push_record_def update_total_def)
  moreover have "st_expenseRecords s' B = st_expenseRecords s B"
    using assms(1) by (simp add: s' emit_def FHE_allow_def push_record_def update_total_def)
  ultimately show ?thesis
    by (simp add: hasInitialized_def getEncryptedMonthlyTotal_def getExpenseRecordCount_def
        getExpenseRecord_def)
qed

theorem addExpense_leaves_other_users_witness:
  "(1 :: address) \<noteq> 2
   \<and> addExpense sample_runtime 7 1 200 500 [1, 7] ''labor''
         (execute sample_runtime 7 deployed [sample_call 2 150 2000 ''materials'']) =
       Inr (execute sample_runtime 7 deployed
              [sample_call 2 150 2000 ''materials'', sample_call 1 200 500 ''labor''])
   \<and> hasInitialized (execute sample_runtime 7 deployed
         [sample_call 2 150 2000 ''materials'', sample_call 1 200 500 ''labor'']) 2
   \<and> getEncryptedMonthlyTotal (execute sample_runtime 7 deployed
         [sample_call 2 150 2000 ''materials'', sample_call 1 200 500 ''labor'']) 2 = 2000
   \<and> getExpenseRecordCount (execute sample_runtime 7 deployed
         [sample_call 2 150 2000 ''materials'', sample_call 1 200 500 ''labor'']) 2 = 1"
proof -
  have ne: "(1 :: address) \<noteq> 2"
    by simp
  have dec: "decoded sample_runtime 7 (sample_call 1 200 500 ''labor'') = Some 500"
    by (simp add: decoded_def sample_call_def sample_runtime_def)
  have "call_addExpense sample_runtime 7 (sample_call 1 200 500 ''labor'')
         (execute sample_runtime 7 deployed [sample_call 2 150 2000 ''materials'']) =
       Inr (execute sample_runtime 7 deployed
              [sample_call 2 150 2000 ''materials'', sample_call 1 200 500 ''labor''])"
    using call_addExpense_success [OF dec] by (simp add: execute_def)
  then have step: "addExpense sample_runtime 7 1 200 500 [1, 7] ''labor''
         (execute sample_runtime 7 deployed [sample_call 2 150 2000 ''materials'']) =
       Inr (execute sample_runtime 7 deployed
              [sample_call 2 150 2000 ''materials'', sample_call 1 200 500 ''labor''])"
    by (simp add: call_addExpense_def sample_call_def)
  have before: "hasInitialized (execute sample_runtime 7 deployed [sample_call 2 150 2000 ''materials'']) 2
      \<and> getEncryptedMonthlyTotal (execute sample_runtime 7 deployed [sample_call 2 150 2000 ''materials'']) 2 = 2000
      \<and> getExpenseRecordCount (execute sample_runtime 7 deployed [sample_call 2 150 2000 ''materials'']) 2 = 1"
    by (simp add: hasInitialized_def getEncryptedMonthlyTotal_def getExpenseRecordCount_def
        execute_def transact_unfold sample_call_def sample_runtime_def deployed_def)
  show ?thesis
    using addExpense_leaves_other_users [OF ne step, of 0] ne step before by simp
qed

text \<open>
  C6. \<open>addExpense\<close> reverts exactly when the proof does not verify against the
  ciphertext, the caller and the contract address, and that is its only revert. Whether
  it reverts does not depend on the category or on the storage, so every category string
  is accepted. A reverted transaction leaves the storage as it was.
\<close>

theorem addExpense_fails_iff_proof_invalid:
  "(isl (addExpense rt this sender now encryptedAmount inputProof cat s) \<longleftrightarrow>
      fhe_fromExternal rt encryptedAmount inputProof sender this = None)
   \<and> (addExpense rt this sender now encryptedAmount inputProof cat s = Inl e \<longrightarrow> e = InvalidInputProof)
   \<and> isl (addExpense rt this sender now encryptedAmount inputProof cat' s') =
       isl (addExpense rt this sender now encryptedAmount inputProof cat s)
   \<and> (isl (call_addExpense rt this c s) \<longrightarrow> transact rt this s c = s)"
  by (auto simp add: addExpense_def FHE_fromExternal_def transact_def Let_def
      split: option.splits sum.splits)

theorem addExpense_fails_iff_proof_invalid_witness:
  "fhe_fromExternal sample_runtime 9 [] 1 7 = None
   \<and> isl (addExpense sample_runtime 7 1 170 9 [] ''other'' deployed)
   \<and> transact sample_runtime 7 deployed
         \<lparr>msg_sender = 1, block_timestamp = 170, arg_encryptedAmount = 9, arg_inputProof = [],
           arg_category = ''other''\<rparr> = deployed
   \<and> fhe_fromExternal sample_runtime 1000 [1, 7] 1 7 = Some 1000
   \<and> \<not> isl (addExpense sample_runtime 7 1 100 1000 [1, 7] ''-1 ?!'' deployed)"
proof -
  have bad: "fhe_fromExternal sample_runtime 9 [] 1 7 = None"
    by (simp add: sample_runtime_def)
  have good: "fhe_fromExternal sample_runtime 1000 [1, 7] 1 7 = Some 1000"
    by (simp add: sample_runtime_def)
  show ?thesis
    using addExpense_fails_iff_proof_invalid [of sample_runtime 7 1 170 9 "[]" "''other''" deployed
        InvalidInputProof "''other''" deployed
        "\<lparr>msg_sender = 1, block_timestamp = 170, arg_encryptedAmount = 9, arg_inputProof = [],
           arg_category = ''other''\<rparr>"]
      addExpense_fails_iff_proof_invalid [of sample_runtime 7 1 100 1000 "[1, 7]" "''-1 ?!''" deployed
        InvalidInputProof "''-1 ?!''" deployed
        "\<lparr>msg_sender = 1, block_timestamp = 170, arg_encryptedAmount = 9, arg_inputProof = [],
           arg_category = ''other''\<rparr>"]
      bad good
    by (simp add: call_addExpense_def)
qed

text \<open>
  C10. In every reachable state, \<open>hasInitialized\<close> of a user holds exactly when the
  user's record count is positive. Once it holds, it holds after every further
  transaction.
\<close>

theorem initialized_iff_has_records:
  "(hasInitialized (execute rt this deployed cs) user \<longleftrightarrow>
      getExpenseRecordCount (execute rt this deployed cs) user > 0)
   \<and> (hasInitialized s user \<longrightarrow> hasInitialized (transact rt this s c) user)
   \<and> (hasInitialized s user \<longrightarrow> hasInitialized (execute rt this s cs) user)"
proof -
  have "hasInitialized (execute rt this deployed cs) user \<longleftrightarrow>
      getExpenseRecordCount (execute rt this deployed cs) user > 0"
    by (simp add: hasInitialized_def getExpenseRecordCount_def execute_initialized execute_records
        deployed_def)
  moreover have "hasInitialized s user \<longrightarrow> hasInitialized (execute rt this s cs) user" for cs
    by (simp add: hasInitialized_def execute_initialized)
  moreover have "transact rt this s c = execute rt this s [c]"
    by (simp add: execute_def)
  ultimately show ?thesis by metis
qed

theorem initialized_iff_has_records_witness:
  "hasInitialized (execute sample_runtime 7 deployed sample_trace) 1
   \<and> getExpenseRecordCount (execute sample_runtime 7 deployed sample_trace) 1 = 2
   \<and> hasInitialized (execute sample_runtime 7 (execute sample_runtime 7 deployed sample_trace)
         sample_trace) 1
   \<and> \<not> hasInitialized (execute sample_runtime 7 deployed sample_trace) 3
   \<and> getExpenseRecordCount (execute sample_runtime 7 deployed sample_trace) 3 = 0"
proof -
  have one: "getExpenseRecordCount (execute sample_runtime 7 deployed sample_trace) 1 = 2"
    by (simp add: getExpenseRecordCount_def execute_records deployed_def sample_adds)
  have three: "getExpenseRecordCount (execute sample_runtime 7 deployed sample_trace) 3 = 0"
    by (simp add: getExpenseRecordCount_def execute_records deployed_def sample_adds_none)
  show ?thesis
    using initialized_iff_has_records [of sample_runtime 7 sample_trace 1
        "execute sample_runtime 7 deployed sample_trace" "hd sample_trace"]
      initialized_iff_has_records [of sample_runtime 7 sample_trace 3 deployed "hd sample_trace"]
      one three
    by simp
qed

section \<open>Properties of the client orchestrator\<close>

subsection \<open>Exceptions and the message\<close>

lemmas async_defs =
  await_def return_def throw_def perform_def update_def try_catch_def try_finally_def


lemma rethrow_after:
  "try_catch T (\<lambda>error. await (update (g error)) (\<lambda>_. throw error)) st =
     (case T st of (Inl e, st') \<Rightarrow> (Inl e, g e st') | (Inr x, st') \<Rightarrow> (Inr x, st'))"
  by (simp add: async_defs split: prod.splits sum.splits)







lemma not_initialized_message_plain:
  "\<not> sublist ''authorized'' not_initialized_message"
  "\<not> sublist ''not authorized'' not_initialized_message"
  "not_initialized_message \<noteq> []"
  by code_simp+

lemmas hook_defs =
  hook_addExpense_def addExpense_try_def refreshAfterAdd_def refreshAfterAdd_try_def decryptTotal_def decryptTotal_try_def
  loadEncryptedTotal_def loadEncryptedTotal_try_def loadEncryptedTotal_read_def
  loadExpenseRecords_def loadExpenseRecords_try_def fail_with_def
  setMessage_def setIsLoading_def setEncryptedTotal_def setDecryptedTotal_def setExpenseRecords_def
  addExpense_errorMessage_def decryptTotal_errorMessage_def loadEncryptedTotal_errorMessage_def
  truthy_def or_else_def str_includes_def Error_def Let_def sublist_code

lemmas sample_defs =
  sample_hook_def mainnet_hook_def offline_def fresh_chain_def node_lost_after_write_def idle_def

subsection \<open>The sample worlds\<close>




lemma offline_loadEncryptedTotal:
  "loadEncryptedTotal offline mainnet_hook idle =
     (Inr (),
      idle\<lparr>message := Some ''Error loading total: Network connection failed. Please check your internet connection and try again.'',
           calls := [GetBlockNumber]\<rparr>)"
  by (simp add: hook_defs async_defs sample_defs)

lemma refresh_failure_keeps_write:
  "fst (hook_addExpense node_lost_after_write sample_hook (Num 5) ''materials'' idle) = Inr ()
   \<and> message (snd (hook_addExpense node_lost_after_write sample_hook (Num 5) ''materials'' idle)) =
       Some ''Expense added, but failed to refresh data. Please refresh manually.''"
  by (simp add: hook_defs async_defs sample_defs)

subsection \<open>The claims about the client orchestrator\<close>



text \<open>
  C8 (as the code has it). When the contract address, the provider, the
  encryption-runtime instance, the signer or the account address is missing,
  \<open>decryptTotal\<close> puts the message \<open>Missing requirements for decryption\<close> in the state
  and returns: it throws nothing, makes no request and changes nothing else. When all are
  present and the contract answers that the user is not initialized, it throws the error
  that tells the user to add expenses first, and shows it after \<open>Error decrypting:\<close>.

  The claim as worded, that \<open>decryptTotal\<close> fails when a precondition is missing, does
  not hold: without a contract address it returns normally.
\<close>

theorem decryptTotal_preconditions:
  "(\<not> truthy (contractAddress h) \<or> ethersProvider h = None \<or> fhevmInstance h = None
      \<or> ethersSigner h = None \<or> \<not> truthy (address h) \<longrightarrow>
      decryptTotal w h st =
        (Inr (), st\<lparr>message := Some ''Missing requirements for decryption''\<rparr>))
   \<and> (truthy (contractAddress h) \<and> ethersProvider h \<noteq> None \<and> fhevmInstance h \<noteq> None
      \<and> ethersSigner h \<noteq> None \<and> truthy (address h)
      \<and> w_hasInitialized w (calls st) (the (contractAddress h)) (the (address h)) = Inr False \<longrightarrow>
      fst (decryptTotal w h st) = Inl (Error not_initialized_message)
      \<and> message (snd (decryptTotal w h st)) = Some (''Error decrypting: '' @ not_initialized_message))"
proof -
  have authorized: "decryptTotal_errorMessage (Error not_initialized_message) =
      ''Error decrypting: '' @ not_initialized_message"
    using not_initialized_message_plain
    by (simp add: decryptTotal_errorMessage_def Error_def or_else_def str_includes_def Let_def)
  have missing: "\<not> truthy (contractAddress h) \<or> ethersProvider h = None \<or> fhevmInstance h = None
      \<or> ethersSigner h = None \<or> \<not> truthy (address h) \<Longrightarrow>
      decryptTotal w h st =
        (Inr (), st\<lparr>message := Some ''Missing requirements for decryption''\<rparr>)"
    by (auto simp add: decryptTotal_def update_def setMessage_def)
  have uninit: "truthy (contractAddress h) \<and> ethersProvider h \<noteq> None \<and> fhevmInstance h \<noteq> None
      \<and> ethersSigner h \<noteq> None \<and> truthy (address h)
      \<and> w_hasInitialized w (calls st) (the (contractAddress h)) (the (address h)) = Inr False \<Longrightarrow>
      decryptTotal w h st =
        (Inl (Error not_initialized_message),
         setMessage (decryptTotal_errorMessage (Error not_initialized_message))
           (st\<lparr>message := Some ''Checking permissions and fetching latest encrypted total...'',
               calls := calls st @ [CallHasInitialized (the (contractAddress h)) (the (address h))]\<rparr>))"
    by (simp add: decryptTotal_def rethrow_after decryptTotal_try_def await_def update_def
        perform_def throw_def setMessage_def)
  show ?thesis
    using missing uninit by (simp add: authorized setMessage_def)
qed

theorem decryptTotal_preconditions_witness:
  "decryptTotal fresh_chain (sample_hook\<lparr>ethersSigner := None\<rparr>) idle =
     (Inr (), idle\<lparr>message := Some ''Missing requirements for decryption''\<rparr>)
   \<and> fst (decryptTotal fresh_chain sample_hook idle) = Inl (Error not_initialized_message)
   \<and> message (snd (decryptTotal fresh_chain sample_hook idle)) =
       Some ''Error decrypting: You haven't added any expenses yet. Please add expenses first before decrypting.''"
  using decryptTotal_preconditions [of "sample_hook\<lparr>ethersSigner := None\<rparr>" fresh_chain idle]
    decryptTotal_preconditions [of sample_hook fresh_chain idle]
  by (simp add: sample_hook_def truthy_def fresh_chain_def offline_def idle_def
      not_initialized_message_def)

theorem decryptTotal_missing_requirements_counterexample:
  "fst (decryptTotal offline (sample_hook\<lparr>contractAddress := None\<rparr>) idle) = Inr ()"
  by (simp add: decryptTotal_def sample_hook_def truthy_def update_def)




end
